theory Spec2Isabelle
  imports Complex_Main "HOL-Library.AList"
begin

section \<open>Conventions of the embedding\<close>

text \<open>
  The Miro server (\<^verbatim>\<open>mcp-server-miro\<close>, one TypeScript file) is embedded function by
  function. JavaScript values are modelled as follows.
  \<^item> A number is a \<^typ>\<open>rat\<close>: arithmetic is exact. A field that is absent or
    whose \<^verbatim>\<open>typeof\<close> is not \<^verbatim>\<open>'number'\<close> is \<^term>\<open>None\<close>.
  \<^item> A string is a \<^typ>\<open>string\<close>, one \<^typ>\<open>char\<close> per code unit below 256. A string
    field that is absent is \<^term>\<open>None\<close>; a string is truthy when it is not empty.
  \<^item> A \<^verbatim>\<open>Map\<close> that is only read with \<^verbatim>\<open>get\<close> is a map \<open>'k \<rightharpoonup> 'v\<close>; a
    \<^verbatim>\<open>Map\<close> that is iterated is an association list in insertion order.
  \<^item> A \<^verbatim>\<open>throw\<close> is the \<^term>\<open>Inl\<close> branch of a sum.
\<close>

datatype error = Error string

subsection \<open>Strings\<close>

text \<open>The class \<^verbatim>\<open>\s\<close> and the characters removed by \<^verbatim>\<open>String.prototype.trim\<close>:
  tab, line feed, vertical tab, form feed, carriage return, space, no-break space.\<close>

definition is_space :: "char \<Rightarrow> bool" where
  "is_space c = (c = CHR 0x09 \<or> c = CHR 0x0A \<or> c = CHR 0x0B \<or> c = CHR 0x0C \<or> c = CHR 0x0D
                 \<or> c = CHR 0x20 \<or> c = CHR 0xA0)"

definition trim :: "string \<Rightarrow> string" where
  "trim s = rev (dropWhile is_space (rev (dropWhile is_space s)))"

text \<open>\<^verbatim>\<open>a || b\<close> on optional strings: the first truthy operand.\<close>

definition truthy :: "string option \<Rightarrow> string option" where
  "truthy v = (case v of Some s \<Rightarrow> if s = [] then None else Some s | None \<Rightarrow> None)"


text \<open>\<^verbatim>\<open>txt.replace(re, ...)\<close> with the \<^verbatim>\<open>g\<close> flag: the matcher \<open>m\<close> says, for
  the text starting at the current position, how many characters the regular expression
  consumes there and what replaces them. Every expression used below consumes at least one
  character.\<close>

function replace_all :: "(string \<Rightarrow> (nat \<times> string) option) \<Rightarrow> string \<Rightarrow> string" where
  "replace_all m [] = []"
| "replace_all m (c # cs) =
     (case m (c # cs) of
        Some (n, r) \<Rightarrow> r @ replace_all m (drop (n - 1) cs)
      | None \<Rightarrow> c # replace_all m cs)"
  by pat_completeness auto
termination
  by (relation "measure (\<lambda>(m, s). length s)") auto

definition starts_with :: "string \<Rightarrow> string \<Rightarrow> bool" where
  "starts_with p s = (take (length p) s = p)"

text \<open>Case-insensitive comparison of ASCII letters, as the \<^verbatim>\<open>i\<close> flag does.\<close>

definition lower :: "char \<Rightarrow> char" where
  "lower c = (let n = (of_char c :: nat) in if 65 \<le> n \<and> n \<le> 90 then char_of (n + 32) else c)"

definition starts_with_ci :: "string \<Rightarrow> string \<Rightarrow> bool" where
  "starts_with_ci p s = (map lower (take (length p) s) = map lower p)"

subsection \<open>htmlToPlain and plainSnippet\<close>

text \<open>\<^verbatim>\<open>/&(amp|lt|gt|quot|#39);/g\<close> with the entity table.\<close>

definition match_entity :: "string \<Rightarrow> (nat \<times> string) option" where
  "match_entity s =
     (if starts_with ''&amp;'' s then Some (5, ''&'')
      else if starts_with ''&lt;'' s then Some (4, ''<'')
      else if starts_with ''&gt;'' s then Some (4, ''>'')
      else if starts_with ''&quot;'' s then Some (6, [CHR 0x22])
      else if starts_with ''&#39;'' s then Some (5, [CHR 0x27])
      else None)"

text \<open>\<^verbatim>\<open>/<br\s*\/?>(\s*)/gi\<close>, replaced by a line feed.\<close>

definition match_br :: "string \<Rightarrow> (nat \<times> string) option" where
  "match_br s =
     (if starts_with_ci ''<br'' s then
        (let r1 = dropWhile is_space (drop 3 s);
             r2 = (case r1 of c # t \<Rightarrow> if c = CHR ''/'' then t else r1 | [] \<Rightarrow> r1)
         in case r2 of
              c # t \<Rightarrow> if c = CHR ''>''
                       then Some (length s - length (dropWhile is_space t), [CHR 0x0A])
                       else None
            | [] \<Rightarrow> None)
      else None)"

text \<open>\<^verbatim>\<open>/<p>/gi\<close> replaced by nothing and \<^verbatim>\<open>/<\/p>/gi\<close> by a line feed.\<close>

definition match_p_open :: "string \<Rightarrow> (nat \<times> string) option" where
  "match_p_open s = (if starts_with_ci ''<p>'' s then Some (3, []) else None)"

definition match_p_close :: "string \<Rightarrow> (nat \<times> string) option" where
  "match_p_close s = (if starts_with_ci ''</p>'' s then Some (4, [CHR 0x0A]) else None)"

text \<open>\<^verbatim>\<open>/<[^>]+>/g\<close>, replaced by nothing.\<close>

definition match_tag :: "string \<Rightarrow> (nat \<times> string) option" where
  "match_tag s =
     (case s of
        c # rest \<Rightarrow>
          (let body = takeWhile (\<lambda>d. d \<noteq> CHR ''>'') rest;
               after = dropWhile (\<lambda>d. d \<noteq> CHR ''>'') rest
           in if c = CHR ''<'' \<and> body \<noteq> [] \<and> after \<noteq> [] then Some (length body + 2, []) else None)
      | [] \<Rightarrow> None)"

text \<open>\<^verbatim>\<open>/\s+/g\<close>, replaced by one space.\<close>

definition match_spaces :: "string \<Rightarrow> (nat \<times> string) option" where
  "match_spaces s =
     (case s of
        c # rest \<Rightarrow> if is_space c then Some (length (takeWhile is_space s), '' '') else None
      | [] \<Rightarrow> None)"

definition htmlToPlain :: "string \<Rightarrow> string" where
  "htmlToPlain textHtml =
     (if textHtml = [] then []
      else
        (let txt = replace_all match_entity textHtml;
             txt = replace_all match_br txt;
             txt = replace_all match_p_close (replace_all match_p_open txt);
             txt = replace_all match_tag txt
         in trim (replace_all match_spaces txt)))"

definition plainSnippet :: "string \<Rightarrow> nat \<Rightarrow> string" where
  "plainSnippet textHtml maxLen =
     (let base = htmlToPlain textHtml in if length base \<le> maxLen then base else take maxLen base)"

subsection \<open>resolveBoardId\<close>

text \<open>The tool arguments: only \<^verbatim>\<open>board_id\<close> matters here; \<^term>\<open>None\<close> when it is absent
  (the schema \<^verbatim>\<open>z.string().optional()\<close> admits nothing else). \<^verbatim>\<open>activeBoardId\<close> is the
  process-wide variable, \<^term>\<open>None\<close> when \<^verbatim>\<open>MIRO_BOARD_ID\<close> was never set.\<close>

record tool_args =
  board_id :: "string option"

definition no_active_board :: string where
  "no_active_board = ''No active board set. Use set_active_board or provide board_id parameter.''"

definition resolveBoardId :: "tool_args \<Rightarrow> string option \<Rightarrow> error + string" where
  "resolveBoardId args activeBoardId =
     (let candidate = (case board_id args of
                         Some b \<Rightarrow> if trim b \<noteq> [] then Some (trim b) else None
                       | None \<Rightarrow> None)
      in case truthy candidate of
           Some c \<Rightarrow> Inr c
         | None \<Rightarrow>
             (case truthy activeBoardId of
                None \<Rightarrow> Inl (Error no_active_board)
              | Some a \<Rightarrow> Inr a))"

text \<open>Every board-scoped tool has the shape
  \<^verbatim>\<open>execute: async (args) => { const boardId = resolveBoardId(args); ... }\<close>:
  the rest of the tool, which issues the HTTP requests, runs after the board id is
  resolved. \<open>rest\<close> returns the requests it made and its result.\<close>

definition execute_board_tool ::
  "(string \<Rightarrow> tool_args \<Rightarrow> 'req list \<times> 'res) \<Rightarrow> tool_args \<Rightarrow> string option
     \<Rightarrow> 'req list \<times> (error + 'res)" where
  "execute_board_tool rest args activeBoardId =
     (case resolveBoardId args activeBoardId of
        Inl e \<Rightarrow> ([], Inl e)
      | Inr boardId \<Rightarrow> (let (reqs, res) = rest boardId args in (reqs, Inr res)))"

subsection \<open>ERD cardinalities and relationship lines\<close>

definition capToCardinality :: "string option \<Rightarrow> string" where
  "capToCardinality cap =
     (case truthy cap of
        None \<Rightarrow> ''||''
      | Some c \<Rightarrow>
          if c = ''erd_one'' \<or> c = ''erd_only_one'' then ''||''
          else if c = ''erd_zero_or_one'' then ''o|''
          else if c = ''erd_many'' \<or> c = ''erd_one_or_many'' then ''|{''
          else if c = ''erd_zero_or_many'' then ''o{''
          else ''||'')"

record connector_style =
  startStrokeCap :: "string option"
  endStrokeCap :: "string option"

text \<open>A connector: \<open>startItem\<close> is \<^verbatim>\<open>c.startItem?.id\<close>, \<open>captions\<close> holds the
  \<^verbatim>\<open>content\<close> of each caption.\<close>

record connector =
  connector_id :: string
  startItem :: "string option"
  endItem :: "string option"
  cstyle :: "connector_style option"
  captions :: "string option list"

record relationship =
  r_fromId :: string
  r_toId :: string
  fromEntity :: string
  toEntity :: string
  leftCardinality :: string
  rightCardinality :: string
  r_label :: "string option"
  r_connectorId :: string

text \<open>The caption label of a connector, cut to \<open>n\<close> characters.\<close>

definition caption_label :: "connector \<Rightarrow> nat \<Rightarrow> string option" where
  "caption_label c n =
     (case captions c of
        [] \<Rightarrow> None
      | cap # _ \<Rightarrow>
          (case truthy cap of
             None \<Rightarrow> None
           | Some raw \<Rightarrow> truthy (Some (plainSnippet raw n))))"

text \<open>The body of the loop over \<^verbatim>\<open>relationshipConnectors\<close> in \<^verbatim>\<open>frame_to_erd\<close>.\<close>

definition relationship_of :: "(string \<rightharpoonup> string) \<Rightarrow> connector \<Rightarrow> relationship option" where
  "relationship_of idToEntityName c =
     (case (truthy (startItem c), truthy (endItem c)) of
        (Some startId, Some endId) \<Rightarrow>
          (case (truthy (idToEntityName startId), truthy (idToEntityName endId)) of
             (Some fromE, Some toE) \<Rightarrow>
               (let st = (case cstyle c of Some s \<Rightarrow> s
                          | None \<Rightarrow> \<lparr>startStrokeCap = None, endStrokeCap = None\<rparr>)
                in Some \<lparr>r_fromId = startId, r_toId = endId, fromEntity = fromE, toEntity = toE,
                         leftCardinality = capToCardinality (startStrokeCap st),
                         rightCardinality = capToCardinality (endStrokeCap st),
                         r_label = caption_label c 60, r_connectorId = connector_id c\<rparr>)
           | _ \<Rightarrow> None)
      | _ \<Rightarrow> None)"

text \<open>One line of the diagram per relationship.\<close>

definition relationship_line :: "relationship \<Rightarrow> string" where
  "relationship_line r =
     (let mid = leftCardinality r @ ''--'' @ rightCardinality r;
          suffix = (case truthy (r_label r) of Some l \<Rightarrow> '' : '' @ l | None \<Rightarrow> [])
      in ''  '' @ fromEntity r @ '' '' @ mid @ '' '' @ toEntity r @ suffix)"

subsection \<open>Board items and bounding boxes\<close>














subsection \<open>Primary-key candidates\<close>









subsection \<open>frame\_to\_mermaid: nodes\<close>













subsection \<open>frame\_to\_mermaid: size and colour statistics\<close>









subsection \<open>frame\_to\_mermaid: containment\<close>





subsection \<open>frame\_to\_mermaid: edges\<close>













subsection \<open>frame\_to\_mermaid: regions\<close>



subsection \<open>Containment: the loop condition and the specification's candidates\<close>







subsection \<open>Regions: colour totals and the specification's region colours\<close>








subsection \<open>Inferred edges: groups and the specification's scan\<close>

text \<open>\<open>first_occurrences\<close> lists the distinct elements in the order in which they
  first appear; \<open>group_fold\<close> is the loop that fills \<^verbatim>\<open>groups\<close>; \<open>root_key\<close> is the key
  of a group; \<open>adjacent_entries\<close> are the pairs \<^verbatim>\<open>(sorted[i], sorted[i + 1])\<close>;
  \<open>keyset\<close> turns pairs of ids into the keys held by \<^verbatim>\<open>existingPairs\<close>. The functions
  \<open>spec_\<close> follow the words of the specification: groups by assigned container,
  adjacent pairs of each sorted group, and a scan that adds the pair of a stacked couple
  unless the pair has been seen.\<close>

fun first_occurrences :: "'a list \<Rightarrow> 'a list" where
  "first_occurrences [] = []"
| "first_occurrences (x # xs) = x # filter (\<lambda>y. y \<noteq> x) (first_occurrences xs)"












subsection \<open>frame\_to\_mermaid: fetchFrameItems\<close>













subsection \<open>Example inputs\<close>












section \<open>Cardinality mapping\<close>

text \<open>C7: in ERD extraction each stroke cap maps to its cardinality token:
  \<^verbatim>\<open>erd_one\<close> and \<^verbatim>\<open>erd_only_one\<close> to \<^verbatim>\<open>||\<close>, \<^verbatim>\<open>erd_zero_or_one\<close> to \<^verbatim>\<open>o|\<close>,
  \<^verbatim>\<open>erd_many\<close> and \<^verbatim>\<open>erd_one_or_many\<close> to \<^verbatim>\<open>|{\<close>, \<^verbatim>\<open>erd_zero_or_many\<close> to \<^verbatim>\<open>o{\<close>,
  an absent or any other value to \<^verbatim>\<open>||\<close>; and a connector from EntityA to EntityB whose
  end cap is \<^verbatim>\<open>erd_many\<close> and that has no start cap is rendered as the line
  \<^verbatim>\<open>EntityA ||--|{ EntityB\<close> (indented by two spaces, as every line of the diagram).\<close>

theorem capToCardinality_table:
  "capToCardinality (Some ''erd_one'') = ''||''
   \<and> capToCardinality (Some ''erd_only_one'') = ''||''
   \<and> capToCardinality (Some ''erd_zero_or_one'') = ''o|''
   \<and> capToCardinality (Some ''erd_many'') = ''|{''
   \<and> capToCardinality (Some ''erd_one_or_many'') = ''|{''
   \<and> capToCardinality (Some ''erd_zero_or_many'') = ''o{''
   \<and> capToCardinality None = ''||''
   \<and> (\<forall>c. c \<notin> {''erd_zero_or_one'', ''erd_many'', ''erd_one_or_many'', ''erd_zero_or_many''}
          \<longrightarrow> capToCardinality (Some c) = ''||'')
   \<and> (\<forall>m cid.
         m ''a'' = Some ''EntityA'' \<and> m ''b'' = Some ''EntityB''
         \<longrightarrow> map_option relationship_line
               (relationship_of m
                  \<lparr>connector_id = cid, startItem = Some ''a'', endItem = Some ''b'',
                   cstyle = Some \<lparr>startStrokeCap = None, endStrokeCap = Some ''erd_many''\<rparr>,
                   captions = []\<rparr>)
             = Some ''  EntityA ||--|{ EntityB'')"
  by (auto simp: capToCardinality_def truthy_def relationship_of_def relationship_line_def
      caption_label_def)

theorem capToCardinality_table_witness:
  "capToCardinality (Some ''erd_anything_else'') = ''||''
   \<and> map_option relationship_line
        (relationship_of [''a'' \<mapsto> ''EntityA'', ''b'' \<mapsto> ''EntityB'']
           \<lparr>connector_id = ''c1'', startItem = Some ''a'', endItem = Some ''b'',
            cstyle = Some \<lparr>startStrokeCap = None, endStrokeCap = Some ''erd_many''\<rparr>,
            captions = []\<rparr>)
      = Some ''  EntityA ||--|{ EntityB''"
  using capToCardinality_table by simp

section \<open>Board-id resolution\<close>

text \<open>C10 (amended): when the arguments carry no \<^verbatim>\<open>board_id\<close> or an empty one and no active
  board is set (the variable is undefined or empty), \<^verbatim>\<open>resolveBoardId\<close> throws the error
  "No active board set. Use set_active_board or provide board_id parameter." and the tool
  issues no request; a \<^verbatim>\<open>board_id\<close> whose trimmed value is not empty is always used,
  trimmed, whatever the active board; a \<^verbatim>\<open>board_id\<close> made of white space only is treated
  as absent.\<close>

theorem resolveBoardId_trimmed:
  "((board_id args = None \<or> board_id args = Some []) \<and> (activeBoardId = None \<or> activeBoardId = Some [])
      \<longrightarrow> resolveBoardId args activeBoardId = Inl (Error no_active_board)
          \<and> execute_board_tool rest args activeBoardId = ([], Inl (Error no_active_board)))
   \<and> (\<forall>b. board_id args = Some b \<and> trim b \<noteq> [] \<longrightarrow> resolveBoardId args activeBoardId = Inr (trim b))
   \<and> (\<forall>b. board_id args = Some b \<and> trim b = [] \<longrightarrow>
          resolveBoardId args activeBoardId = resolveBoardId (args\<lparr>board_id := None\<rparr>) activeBoardId)"
  by (auto simp: resolveBoardId_def execute_board_tool_def truthy_def trim_def)

theorem resolveBoardId_trimmed_witness:
  "resolveBoardId \<lparr>board_id = None\<rparr> None = Inl (Error no_active_board)
   \<and> execute_board_tool (\<lambda>b a. ([''GET /v2/boards/'' @ b], ())) \<lparr>board_id = Some []\<rparr> None
       = ([], Inl (Error no_active_board))
   \<and> resolveBoardId \<lparr>board_id = Some '' b2 ''\<rparr> (Some ''b1'') = Inr ''b2''"
proof -
  have t: "trim '' b2 '' = ''b2''" by (simp add: trim_def is_space_def)
  show ?thesis
    using resolveBoardId_trimmed[of "\<lparr>board_id = None\<rparr>" None "\<lambda>b a. ([''GET /v2/boards/'' @ b], ())"]
      resolveBoardId_trimmed[of "\<lparr>board_id = Some []\<rparr>" None "\<lambda>b a. ([''GET /v2/boards/'' @ b], ())"]
      resolveBoardId_trimmed[of "\<lparr>board_id = Some '' b2 ''\<rparr>" "Some ''b1''" "\<lambda>b a. ([''GET /v2/boards/'' @ b], ())"]
      t
    by simp
qed

text \<open>The claim as stated fails: the non-empty \<^verbatim>\<open>board_id\<close> \<^verbatim>\<open>" "\<close> is not used;
  the active board is, and without an active board the call throws.\<close>

theorem resolveBoardId_blank_counterexample:
  "'' '' \<noteq> [] \<and> resolveBoardId \<lparr>board_id = Some '' ''\<rparr> (Some ''b1'') = Inr ''b1''
   \<and> resolveBoardId \<lparr>board_id = Some '' ''\<rparr> (Some ''b1'') \<noteq> Inr (trim '' '')
   \<and> resolveBoardId \<lparr>board_id = Some '' ''\<rparr> None = Inl (Error no_active_board)"
  by (simp add: resolveBoardId_def truthy_def trim_def is_space_def)

section \<open>Bounding boxes\<close>





section \<open>Primary-key candidates\<close>

lemma is_space_LF: "is_space (CHR 0x0A)" by (simp add: is_space_def)













section \<open>Containment inference\<close>

subsection \<open>The inner loop keeps the smallest passing candidate\<close>















subsection \<open>Evaluating the maps\<close>





subsection \<open>Best-parent selection\<close>


subsection \<open>Acyclicity\<close>








section \<open>Region classification\<close>

















section \<open>Inferred dependency edges\<close>

lemma set_first_occurrences [simp]: "set (first_occurrences xs) = set xs"
  by (induction xs) auto

lemma distinct_first_occurrences [simp]: "distinct (first_occurrences xs)"
  by (induction xs) auto















subsection \<open>Aliases\<close>






subsection \<open>The scan over adjacent entries\<close>



subsection \<open>Adjacent entries are ordered\<close>





subsection \<open>The explicit edges\<close>



subsection \<open>The code's edges are the specification's\<close>





subsection \<open>Three stacked shapes\<close>












section \<open>Fallback when the frame metadata cannot be fetched\<close>





end
